theory Spec2Isabelle
  imports Main
begin

section \<open>Calamares module factory: \<open>src/libcalamaresui/modulesystem/Module.cpp\<close>\<close>

text \<open>
  The development embeds \<open>Module::fromDescriptor\<close>, \<open>Module::initFrom\<close> and
  \<open>Module::loadConfigurationFile\<close>. Qt strings are \<open>string\<close>, a \<open>QVariantMap\<close> is an
  association list read through \<open>map_of\<close>, \<open>nullptr\<close> is \<open>None\<close>, a thrown
  \<open>YAML::Exception\<close> is \<open>Inl\<close>, and the lines written to \<open>cError()\<close> and
  \<open>cWarning()\<close> are returned as a list next to the result.
\<close>

subsection \<open>Qt values\<close>

text \<open>
  \<open>QVariant\<close> with the types a descriptor or a configuration document can hold
  (floating-point scalars are left out). A \<open>QVariantMap\<close> is keyed by strings.
\<close>

datatype QVariant =
    VInvalid
  | VBool bool
  | VInt int
  | VString string
  | VList "QVariant list"
  | VMap "(string \<times> QVariant) list"

type_synonym QVariantMap = "(string \<times> QVariant) list"

definition QMap_contains :: "QVariantMap \<Rightarrow> string \<Rightarrow> bool" where
  "QMap_contains m k = (map_of m k \<noteq> None)"

text \<open>\<open>QMap::value\<close> and the const \<open>operator[]\<close>: a default-constructed (invalid)
  variant for a key that is not there.\<close>

definition QMap_value :: "QVariantMap \<Rightarrow> string \<Rightarrow> QVariant" where
  "QMap_value m k = (case map_of m k of None \<Rightarrow> VInvalid | Some v \<Rightarrow> v)"

definition digit_char :: "nat \<Rightarrow> char" where
  "digit_char d = char_of (48 + d)"

fun digits :: "nat \<Rightarrow> string" where
  "digits n = (if n < 10 then [digit_char n] else digits (n div 10) @ [digit_char (n mod 10)])"

declare digits.simps [simp del]

definition QString_number :: "int \<Rightarrow> string" where
  "QString_number i = (if i < 0 then CHR ''-'' # digits (nat (- i)) else digits (nat i))"

definition toLower_char :: "char \<Rightarrow> char" where
  "toLower_char c =
     (let n = (of_char c :: nat) in if 65 \<le> n \<and> n \<le> 90 then char_of (n + 32) else c)"

definition toLower :: "string \<Rightarrow> string" where
  "toLower s = map toLower_char s"

text \<open>\<open>QVariant::toString\<close>: the text of a string, boolean or number, and the empty
  string for an invalid variant, a list or a map.\<close>

fun toString :: "QVariant \<Rightarrow> string" where
  "toString VInvalid = []"
| "toString (VBool b) = (if b then ''true'' else ''false'')"
| "toString (VInt i) = QString_number i"
| "toString (VString s) = s"
| "toString (VList xs) = []"
| "toString (VMap kvs) = []"

text \<open>\<open>QVariant::toBool\<close>: a boolean is itself, a number is true when it is not zero,
  a string when its lower-case content is none of empty, \<open>0\<close>, \<open>false\<close>; everything
  else is false.\<close>

fun toBool :: "QVariant \<Rightarrow> bool" where
  "toBool VInvalid = False"
| "toBool (VBool b) = b"
| "toBool (VInt i) = (i \<noteq> 0)"
| "toBool (VString s) = (\<not> (toLower s = [] \<or> toLower s = ''0'' \<or> toLower s = ''false''))"
| "toBool (VList xs) = False"
| "toBool (VMap kvs) = False"

text \<open>\<open>QVariant::toMap\<close>: the map of a map variant, an empty map otherwise.\<close>

fun toMap :: "QVariant \<Rightarrow> QVariantMap" where
  "toMap (VMap kvs) = kvs"
| "toMap v = []"

subsection \<open>\<open>QString::arg\<close> and \<open>QDir::absoluteFilePath\<close>\<close>

definition digitValue :: "char \<Rightarrow> nat option" where
  "digitValue c =
     (let n = (of_char c :: nat) in if 48 \<le> n \<and> n \<le> 57 then Some (n - 48) else None)"

text \<open>The place marker that may follow a \<open>%\<close>: an optional \<open>L\<close>, then one or two
  digits. The result is the marker's number and the text after it.\<close>

definition argEscape :: "string \<Rightarrow> (nat \<times> string) option" where
  "argEscape s =
     (let s' = (case s of [] \<Rightarrow> s | c # t \<Rightarrow> if c = CHR ''L'' then t else s) in
      case s' of
        [] \<Rightarrow> None
      | c # t \<Rightarrow>
          (case digitValue c of
             None \<Rightarrow> None
           | Some d \<Rightarrow>
               (case t of
                  [] \<Rightarrow> Some (d, [])
                | c2 # t2 \<Rightarrow>
                    (case digitValue c2 of
                       None \<Rightarrow> Some (d, t)
                     | Some d2 \<Rightarrow> Some (10 * d + d2, t2)))))"

text \<open>The lowest-numbered place marker of a string, if it has one.\<close>

fun min_escape :: "string \<Rightarrow> nat option" where
  "min_escape [] = None"
| "min_escape (c # s) =
     (if c = CHR ''%'' then
        (case argEscape s of
           None \<Rightarrow> min_escape s
         | Some (n, rest) \<Rightarrow>
             (case min_escape s of None \<Rightarrow> Some n | Some k \<Rightarrow> Some (min n k)))
      else min_escape s)"

lemma argEscape_shorter: "argEscape s = Some (n, rest) \<Longrightarrow> length rest < length s"
  by (auto simp: argEscape_def Let_def split: list.splits option.splits if_splits)

function replaceArgEscapes :: "nat \<Rightarrow> string \<Rightarrow> string \<Rightarrow> string" where
  "replaceArgEscapes k a [] = []"
| "replaceArgEscapes k a (c # s) =
     (if c = CHR ''%'' then
        (case argEscape s of
           None \<Rightarrow> c # replaceArgEscapes k a s
         | Some (n, rest) \<Rightarrow>
             if n = k then a @ replaceArgEscapes k a rest else c # replaceArgEscapes k a s)
      else c # replaceArgEscapes k a s)"
  by pat_completeness auto
termination
  by (relation "measure (\<lambda>(k, a, s). length s)") (auto dest: argEscape_shorter)

text \<open>\<open>QString::arg\<close> with one string argument: every occurrence of the
  lowest-numbered place marker is replaced; a string without a marker is returned as
  it is.\<close>

definition QString_arg :: "string \<Rightarrow> string \<Rightarrow> string" where
  "QString_arg s a = (case min_escape s of None \<Rightarrow> s | Some k \<Rightarrow> replaceArgEscapes k a s)"

definition endsWith :: "string \<Rightarrow> char \<Rightarrow> bool" where
  "endsWith s c = (s \<noteq> [] \<and> last s = c)"

text \<open>\<open>QDir::absoluteFilePath\<close> of a directory given by its absolute path: an absolute
  file name is returned as it is, a relative one is appended to the directory, with a
  separator unless the directory already ends with one.\<close>

definition absoluteFilePath :: "string \<Rightarrow> string \<Rightarrow> string" where
  "absoluteFilePath absoluteDirPath fn =
     (if fn \<noteq> [] \<and> hd fn = CHR ''/'' then fn
      else if fn = [] then absoluteDirPath
      else if \<not> endsWith absoluteDirPath CHR ''/'' then absoluteDirPath @ CHR ''/'' # fn
      else absoluteDirPath @ fn)"

subsection \<open>The YAML library and the environment\<close>

datatype YAML_Node =
    YNull
  | YScalar string
  | YSequence "YAML_Node list"
  | YMap "(YAML_Node \<times> YAML_Node) list"

fun IsNull :: "YAML_Node \<Rightarrow> bool" where
  "IsNull YNull = True"
| "IsNull n = False"

fun IsMap :: "YAML_Node \<Rightarrow> bool" where
  "IsMap (YMap kvs) = True"
| "IsMap n = False"

datatype YAML_Exception = YAML_Exception (what: string)

text \<open>
  What the code reads from outside of \<open>Module.cpp\<close>: the two compile-time switches,
  \<open>CalamaresUtils::isAppDataDirOverridden()\<close>, the absolute path of
  \<open>CalamaresUtils::appDataDir()\<close>, \<open>Settings::instance()->debugMode()\<close>,
  \<open>QDir::currentPath()\<close>, the answers of \<open>QDir\<close> and \<open>QFile\<close> for a path, the parser
  \<open>YAML::Load\<close> and the conversion \<open>CalamaresUtils::yamlMapToVariant\<close>. The last two
  are parameters: both may throw a \<open>YAML::Exception\<close>.
\<close>

record Env =
  WITH_PYTHON :: bool
  WITH_PYTHONQT :: bool
  isAppDataDirOverridden :: bool
  appDataDir :: string
  debugMode :: bool
  currentPath :: string
  QDir_exists :: "string \<Rightarrow> bool"
  QDir_isReadable :: "string \<Rightarrow> bool"
  QDir_absolutePath :: "string \<Rightarrow> string"
  QFile_exists :: "string \<Rightarrow> bool"
  QFile_open :: "string \<Rightarrow> bool"
  QFile_readAll :: "string \<Rightarrow> string"
  YAML_Load :: "string \<Rightarrow> YAML_Exception + YAML_Node"
  yamlMapToVariant :: "YAML_Node \<Rightarrow> YAML_Exception + QVariant"

text \<open>\<open>QByteArray::constData\<close> handed to \<open>YAML::Load(const char*)\<close>: the bytes up to
  the first zero byte.\<close>

definition constData :: "string \<Rightarrow> string" where
  "constData ba = takeWhile (\<lambda>c. c \<noteq> CHR 0x00) ba"

datatype LogLine = cError "string list" | cWarning "string list"

subsection \<open>The module\<close>

datatype ModuleVariant =
    ViewModule
  | PythonQtViewModule
  | CppJobModule
  | ProcessJobModule
  | PythonJobModule

record Module =
  variant :: ModuleVariant
  m_name :: string
  m_requiredModules :: "string list"
  m_directory :: string
  m_instanceId :: string
  m_configurationMap :: QVariantMap
  m_loaded :: bool
  m_emergency :: bool
  m_maybe_emergency :: bool

definition EMERGENCY :: string where
  "EMERGENCY = ''emergency''"

text \<open>
  Modelled from the spec: the member initialisers of \<open>Module.h\<close>, which is not among the
  sources. \<open>Module::Module()\<close> sets \<open>m_loaded\<close> to false; the strings, the list and
  the map are default-constructed empty; the spec gives the flags: without a
  configuration file a build returns \<open>emergency = false\<close>, and the descriptor's hint
  is optional, so that a descriptor without the key has not hinted.
\<close>

definition new_Module :: "ModuleVariant \<Rightarrow> Module" where
  "new_Module v =
     \<lparr> variant = v, m_name = [], m_requiredModules = [], m_directory = [],
       m_instanceId = [], m_configurationMap = [], m_loaded = False,
       m_emergency = False, m_maybe_emergency = False \<rparr>"

text \<open>\<open>Module::initFrom\<close>, lines 294 to 303. The function is virtual; the variants' own
  versions are not among the sources, and the model is the base class's.\<close>

definition initFrom :: "QVariantMap \<Rightarrow> Module \<Rightarrow> Module" where
  "initFrom moduleDescriptor m =
     (let m1 = m\<lparr> m_name := toString (QMap_value moduleDescriptor ''name'') \<rparr> in
      if QMap_contains moduleDescriptor EMERGENCY
      then m1\<lparr> m_maybe_emergency := toBool (QMap_value moduleDescriptor EMERGENCY) \<rparr>
      else m1)"

subsection \<open>\<open>Module::loadConfigurationFile\<close>\<close>

text \<open>Lines 157 to 180: the candidate paths, in the order they are tried.\<close>

definition configFilesByPriority :: "Env \<Rightarrow> string \<Rightarrow> string \<Rightarrow> string list" where
  "configFilesByPriority env name configFileName =
     (if isAppDataDirOverridden env then
        [absoluteFilePath (appDataDir env) (QString_arg ''modules/%1'' configFileName)]
      else
        (if debugMode env then
           [absoluteFilePath (currentPath env)
              (QString_arg (QString_arg ''src/modules/%1/%2'' name) configFileName)]
         else [])
        @ [QString_arg ''/etc/calamares/modules/%1'' configFileName,
           absoluteFilePath (appDataDir env) (QString_arg ''modules/%2'' configFileName)])"

text \<open>Lines 187 to 206: what is done with a file that exists and was opened. The
  result is the module and the lines logged, or the exception thrown.\<close>

definition readConfigFile ::
  "Env \<Rightarrow> Module \<Rightarrow> string \<Rightarrow> YAML_Exception + (Module \<times> LogLine list)" where
  "readConfigFile env m path =
     (let ba = QFile_readAll env path in
      case YAML_Load env (constData ba) of
        Inl e \<Rightarrow> Inl e
      | Inr doc \<Rightarrow>
          if IsNull doc then Inr (m, [])
          else if \<not> IsMap doc then
            Inr (m, [cWarning [''Bad module configuration format'', path]])
          else
            (case yamlMapToVariant env doc of
               Inl e \<Rightarrow> Inl e
             | Inr v \<Rightarrow>
                 let m1 = m\<lparr> m_configurationMap := toMap v \<rparr> in
                 Inr (m1\<lparr> m_emergency :=
                            m_maybe_emergency m1
                            \<and> QMap_contains (m_configurationMap m1) EMERGENCY
                            \<and> toBool (QMap_value (m_configurationMap m1) EMERGENCY) \<rparr>,
                      [])))"

text \<open>Lines 182 to 210: the loop over the candidates.\<close>

fun loadFirst ::
  "Env \<Rightarrow> Module \<Rightarrow> string list \<Rightarrow> YAML_Exception + (Module \<times> LogLine list)" where
  "loadFirst env m [] = Inr (m, [])"
| "loadFirst env m (path # paths) =
     (if QFile_exists env path \<and> QFile_open env path then readConfigFile env m path
      else loadFirst env m paths)"

definition loadConfigurationFile ::
  "Env \<Rightarrow> string \<Rightarrow> Module \<Rightarrow> YAML_Exception + (Module \<times> LogLine list)" where
  "loadConfigurationFile env configFileName m =
     loadFirst env m (configFilesByPriority env (m_name m) configFileName)"

subsection \<open>\<open>Module::fromDescriptor\<close>\<close>

text \<open>Lines 80 to 119: the variant for a type and an interface, and what is logged
  when there is none.\<close>

definition selectVariant ::
  "Env \<Rightarrow> string \<Rightarrow> string \<Rightarrow> ModuleVariant option \<times> LogLine list" where
  "selectVariant env typeString intfString =
     (if typeString = ''view'' \<or> typeString = ''viewmodule'' then
        (if intfString = ''qtplugin'' then (Some ViewModule, [])
         else if intfString = ''pythonqt'' then
           (if WITH_PYTHONQT env then (Some PythonQtViewModule, [])
            else (None, [cError
                   [''PythonQt view modules are not supported in this version of Calamares.'']]))
         else (None, [cError [''Bad interface'', intfString, ''for module type'', typeString]]))
      else if typeString = ''job'' then
        (if intfString = ''qtplugin'' then (Some CppJobModule, [])
         else if intfString = ''process'' then (Some ProcessJobModule, [])
         else if intfString = ''python'' then
           (if WITH_PYTHON env then (Some PythonJobModule, [])
            else (None, [cError
                   [''Python modules are not supported in this version of Calamares.'']]))
         else (None, [cError [''Bad interface'', intfString, ''for module type'', typeString]]))
      else (None, [cError [''Bad module type'', typeString]]))"

definition fromDescriptor ::
  "Env \<Rightarrow> QVariantMap \<Rightarrow> string \<Rightarrow> string \<Rightarrow> string \<Rightarrow> Module option \<times> LogLine list" where
  "fromDescriptor env moduleDescriptor instanceId configFileName moduleDirectory =
     (let typeString = toString (QMap_value moduleDescriptor ''type'');
          intfString = toString (QMap_value moduleDescriptor ''interface'')
      in
      if typeString = [] \<or> intfString = [] then
        (None, [cError [''Bad module descriptor format'', instanceId]])
      else
        (case selectVariant env typeString intfString of
           (None, lg) \<Rightarrow>
             (None, lg @ [cError [''Bad module type ('', typeString,
                                  '') or interface string ('', intfString,
                                  '') for module '', instanceId]])
         | (Some v, lg) \<Rightarrow>
             if QDir_exists env moduleDirectory \<and> QDir_isReadable env moduleDirectory then
               (let m0 = (new_Module v)\<lparr> m_directory := QDir_absolutePath env moduleDirectory \<rparr>;
                    m1 = m0\<lparr> m_instanceId := instanceId \<rparr>;
                    m2 = initFrom moduleDescriptor m1
                in
                case loadConfigurationFile env configFileName m2 of
                  Inl e \<Rightarrow> (None, lg @ [cError [''YAML parser error '', what e]])
                | Inr (m3, lg') \<Rightarrow> (Some m3, lg @ lg'))
             else
               (None, lg @ [cError [''Bad module directory'', moduleDirectory,
                                    ''for'', instanceId]])))"

subsection \<open>An example installation\<close>

text \<open>
  A small parser and conversion for the examples below: they know an empty document, a
  one-line mapping, a one-line sequence and an unbalanced brace, which is a syntax
  error. The theorems hold for every parser; the examples run them on this one.
\<close>

definition example_Load :: "string \<Rightarrow> YAML_Exception + YAML_Node" where
  "example_Load s =
     (if s = [] then Inr YNull
      else if s = ''emergency: true'' then Inr (YMap [(YScalar ''emergency'', YScalar ''true'')])
      else if s = ''- a'' then Inr (YSequence [YScalar ''a''])
      else if s = ''{'' then Inl (YAML_Exception ''yaml-cpp: error at line 1, column 2'')
      else Inr (YScalar s))"

fun example_key :: "YAML_Node \<Rightarrow> string" where
  "example_key (YScalar s) = s"
| "example_key n = []"

fun example_value :: "YAML_Node \<Rightarrow> QVariant" where
  "example_value (YScalar s) =
     (if s = ''true'' then VBool True else if s = ''false'' then VBool False else VString s)"
| "example_value n = VInvalid"

definition example_yamlMapToVariant :: "YAML_Node \<Rightarrow> YAML_Exception + QVariant" where
  "example_yamlMapToVariant n =
     (case n of
        YMap kvs \<Rightarrow> Inr (VMap (map (\<lambda>(k, v). (example_key k, example_value v)) kvs))
      | _ \<Rightarrow> Inr VInvalid)"

text \<open>An installation with the module directory of \<open>welcome\<close> and no configuration
  file at all; the examples add files to it.\<close>

definition exampleEnv :: Env where
  "exampleEnv =
     \<lparr> WITH_PYTHON = True, WITH_PYTHONQT = False,
       isAppDataDirOverridden = False, appDataDir = ''/usr/share/calamares'',
       debugMode = False, currentPath = ''/home/dev/calamares'',
       QDir_exists = (\<lambda>d. d = ''/usr/lib/calamares/modules/welcome''),
       QDir_isReadable = (\<lambda>d. True),
       QDir_absolutePath = (\<lambda>d. d),
       QFile_exists = (\<lambda>p. False),
       QFile_open = (\<lambda>p. False),
       QFile_readAll = (\<lambda>p. []),
       YAML_Load = example_Load,
       yamlMapToVariant = example_yamlMapToVariant \<rparr>"

text \<open>Adding a file that opens, and a file that exists but does not open.\<close>

definition withFile :: "Env \<Rightarrow> string \<Rightarrow> string \<Rightarrow> Env" where
  "withFile env path bytes =
     env\<lparr> QFile_exists := (\<lambda>q. q = path \<or> QFile_exists env q),
          QFile_open := (\<lambda>q. q = path \<or> QFile_open env q),
          QFile_readAll := (\<lambda>q. if q = path then bytes else QFile_readAll env q) \<rparr>"

definition withUnreadable :: "Env \<Rightarrow> string \<Rightarrow> Env" where
  "withUnreadable env path =
     env\<lparr> QFile_exists := (\<lambda>q. q = path \<or> QFile_exists env q),
          QFile_open := (\<lambda>q. q \<noteq> path \<and> QFile_open env q) \<rparr>"

definition welcomeDesc :: QVariantMap where
  "welcomeDesc =
     [(''type'', VString ''job''), (''interface'', VString ''process''),
      (''name'', VString ''welcome''), (''emergency'', VBool True)]"

definition etcConf :: string where
  "etcConf = ''/etc/calamares/modules/welcome.conf''"

definition appConf :: string where
  "appConf = ''/usr/share/calamares/modules/welcome.conf''"

definition welcomeDir :: string where
  "welcomeDir = ''/usr/lib/calamares/modules/welcome''"

subsection \<open>A log that names a path\<close>

text \<open>A log names a path when the path occurs, as a piece of text, in one of the items
  of one of its lines.\<close>

fun startsWith :: "string \<Rightarrow> string \<Rightarrow> bool" where
  "startsWith s [] = True"
| "startsWith [] (c # p) = False"
| "startsWith (x # s) (c # p) = (x = c \<and> startsWith s p)"

fun occursIn :: "string \<Rightarrow> string \<Rightarrow> bool" where
  "occursIn p [] = (p = [])"
| "occursIn p (x # s) = (startsWith (x # s) p \<or> occursIn p s)"

fun items :: "LogLine \<Rightarrow> string list" where
  "items (cError xs) = xs"
| "items (cWarning xs) = xs"

definition names :: "LogLine list \<Rightarrow> string \<Rightarrow> bool" where
  "names lg path = list_ex (\<lambda>l. list_ex (occursIn path) (items l)) lg"

section \<open>Facts about the model\<close>

lemma arg_modules_1: "QString_arg ''modules/%1'' f = ''modules/'' @ f"
  by (simp add: QString_arg_def argEscape_def digitValue_def)

lemma arg_modules_2: "QString_arg ''modules/%2'' f = ''modules/'' @ f"
  by (simp add: QString_arg_def argEscape_def digitValue_def)

lemma arg_etc: "QString_arg ''/etc/calamares/modules/%1'' f = ''/etc/calamares/modules/'' @ f"
  by (simp add: QString_arg_def argEscape_def digitValue_def)

lemma loadFirst_skip:
  "\<forall>q\<in>set pre. \<not> (QFile_exists env q \<and> QFile_open env q) \<Longrightarrow>
   loadFirst env m (pre @ rest) = loadFirst env m rest"
  by (induction pre) auto

lemma loadFirst_none:
  "\<forall>q\<in>set ps. \<not> (QFile_exists env q \<and> QFile_open env q) \<Longrightarrow>
   loadFirst env m ps = Inr (m, [])"
  by (induction ps) auto

lemma loadFirst_wins:
  assumes "\<forall>q\<in>set pre. \<not> (QFile_exists env q \<and> QFile_open env q)"
    and "QFile_exists env p" and "QFile_open env p"
  shows "loadFirst env m (pre @ p # post) = readConfigFile env m p"
  using assms by (simp add: loadFirst_skip)

lemma loadFirst_cases:
  "loadFirst env m ps = Inr (m, []) \<or>
   (\<exists>p\<in>set ps. QFile_exists env p \<and> QFile_open env p \<and>
      loadFirst env m ps = readConfigFile env m p)"
  by (induction ps) auto

lemma loadFirst_winner:
  assumes "loadFirst env m ps = Inr (m', lg)" and "m' \<noteq> m"
  shows "\<exists>pre p post. ps = pre @ p # post
           \<and> (\<forall>q\<in>set pre. \<not> (QFile_exists env q \<and> QFile_open env q))
           \<and> QFile_exists env p \<and> QFile_open env p
           \<and> readConfigFile env m p = Inr (m', lg)"
proof (cases "\<exists>q\<in>set ps. QFile_exists env q \<and> QFile_open env q")
  case True
  from split_list_first_prop[OF True] obtain pre p post where
    s: "ps = pre @ p # post" "QFile_exists env p \<and> QFile_open env p"
       "\<forall>q\<in>set pre. \<not> (QFile_exists env q \<and> QFile_open env q)"
    by blast
  with assms(1) have "readConfigFile env m p = Inr (m', lg)"
    by (simp add: loadFirst_wins)
  with s show ?thesis by blast
next
  case False
  then have "loadFirst env m ps = Inr (m, [])"
    by (simp add: loadFirst_none)
  with assms show ?thesis by simp
qed

lemma readConfigFile_cases:
  assumes "readConfigFile env m p = Inr (m', lg)"
  shows "m' = m \<or>
    (\<exists>doc v. YAML_Load env (constData (QFile_readAll env p)) = Inr doc \<and> IsMap doc
       \<and> yamlMapToVariant env doc = Inr v \<and> lg = []
       \<and> m' = m\<lparr> m_configurationMap := toMap v,
                   m_emergency := m_maybe_emergency m
                      \<and> QMap_contains (toMap v) EMERGENCY
                      \<and> toBool (QMap_value (toMap v) EMERGENCY) \<rparr>)"
  using assms
  by (auto simp: readConfigFile_def Let_def split: sum.splits if_splits)

lemma loadFirst_result:
  assumes "loadFirst env m ps = Inr (m', lg)"
  shows "m' = m \<or>
    (\<exists>v. m' = m\<lparr> m_configurationMap := toMap v,
                   m_emergency := m_maybe_emergency m
                      \<and> QMap_contains (toMap v) EMERGENCY
                      \<and> toBool (QMap_value (toMap v) EMERGENCY) \<rparr>)"
proof -
  from loadFirst_cases[of env m ps] assms
  consider "m' = m" | p where "readConfigFile env m p = Inr (m', lg)"
    by auto
  then show ?thesis
  proof cases
    case 1
    then show ?thesis by simp
  next
    case 2
    from readConfigFile_cases[OF 2] show ?thesis by blast
  qed
qed

lemma loadFirst_keeps:
  assumes "loadFirst env m ps = Inr (m', lg)"
  shows "m_directory m' = m_directory m \<and> m_maybe_emergency m' = m_maybe_emergency m
       \<and> variant m' = variant m \<and> m_name m' = m_name m \<and> m_instanceId m' = m_instanceId m"
  using loadFirst_result[OF assms] by auto

lemma selectVariant_Some:
  assumes "selectVariant env t i = (Some v, lg)"
  shows "t \<noteq> [] \<and> i \<noteq> [] \<and> lg = []"
  using assms by (auto simp: selectVariant_def split: if_splits)

lemma initFrom_fields:
  "m_name (initFrom d m) = toString (QMap_value d ''name'')"
  "m_maybe_emergency (initFrom d m) =
     (if QMap_contains d EMERGENCY then toBool (QMap_value d EMERGENCY) else m_maybe_emergency m)"
  "m_emergency (initFrom d m) = m_emergency m"
  "m_configurationMap (initFrom d m) = m_configurationMap m"
  "m_directory (initFrom d m) = m_directory m"
  "m_instanceId (initFrom d m) = m_instanceId m"
  "variant (initFrom d m) = variant m"
  by (simp_all add: initFrom_def Let_def)

lemma built_candidates:
  "m_name (initFrom d ((new_Module v)\<lparr> m_directory := x, m_instanceId := y \<rparr>)) =
     toString (QMap_value d ''name'')"
  by (simp add: initFrom_fields)

lemma fromDescriptor_built:
  assumes "selectVariant env (toString (QMap_value d ''type''))
             (toString (QMap_value d ''interface'')) = (Some v, lg)"
    and "QDir_exists env dir" and "QDir_isReadable env dir"
  shows "fromDescriptor env d iid f dir =
     (case loadConfigurationFile env f
             (initFrom d ((new_Module v)\<lparr> m_directory := QDir_absolutePath env dir,
                                          m_instanceId := iid \<rparr>)) of
        Inl e \<Rightarrow> (None, [cError [''YAML parser error '', what e]])
      | Inr (m3, lg') \<Rightarrow> (Some m3, lg'))"
  using assms selectVariant_Some[OF assms(1)]
  by (simp add: fromDescriptor_def Let_def split: sum.splits)

lemma fromDescriptor_Some:
  assumes "fromDescriptor env d iid f dir = (Some m, lg)"
  shows "\<exists>v. selectVariant env (toString (QMap_value d ''type''))
             (toString (QMap_value d ''interface'')) = (Some v, [])
     \<and> QDir_exists env dir \<and> QDir_isReadable env dir
     \<and> loadConfigurationFile env f
             (initFrom d ((new_Module v)\<lparr> m_directory := QDir_absolutePath env dir,
                                          m_instanceId := iid \<rparr>)) = Inr (m, lg)"
  using assms
  apply (simp add: fromDescriptor_def Let_def split: if_splits prod.splits option.splits sum.splits)
  apply (auto dest: selectVariant_Some)
  done

lemmas example_simps =
  fromDescriptor_def selectVariant_def QMap_value_def QMap_contains_def initFrom_def
  new_Module_def loadConfigurationFile_def configFilesByPriority_def arg_etc arg_modules_1
  arg_modules_2 absoluteFilePath_def endsWith_def readConfigFile_def constData_def
  example_Load_def example_yamlMapToVariant_def EMERGENCY_def exampleEnv_def withFile_def
  withUnreadable_def welcomeDesc_def etcConf_def appConf_def welcomeDir_def Let_def

section \<open>The factory\<close>

text \<open>
  Claim C4. A descriptor whose \<open>type\<close> or \<open>interface\<close> key is missing, or whose value
  for it is empty as a string, is rejected: the build returns no instance and the only
  line logged is the bad-descriptor error with the instance id. No line of the variant
  lookup is logged, whatever the environment and the other arguments are: the check
  comes first.
\<close>

theorem missing_type_or_interface_rejected:
  assumes "\<not> QMap_contains d ''type'' \<or> toString (QMap_value d ''type'') = []
         \<or> \<not> QMap_contains d ''interface'' \<or> toString (QMap_value d ''interface'') = []"
  shows "fromDescriptor env d iid f dir =
           (None, [cError [''Bad module descriptor format'', iid]])"
  using assms
  by (auto simp: fromDescriptor_def Let_def QMap_contains_def QMap_value_def)

text \<open>A descriptor without \<open>type\<close>, and one with an empty \<open>interface\<close>.\<close>

theorem missing_type_or_interface_rejected_witness:
  "\<not> QMap_contains [(''interface'', VString ''qtplugin'')] ''type''
   \<and> fromDescriptor exampleEnv [(''interface'', VString ''qtplugin'')]
        ''welcome@1'' ''welcome.conf'' welcomeDir
     = (None, [cError [''Bad module descriptor format'', ''welcome@1'']])
   \<and> toString (QMap_value [(''type'', VString ''job''), (''interface'', VString [])]
                  ''interface'') = []
   \<and> fromDescriptor exampleEnv [(''type'', VString ''job''), (''interface'', VString [])]
        ''welcome@1'' ''welcome.conf'' welcomeDir
     = (None, [cError [''Bad module descriptor format'', ''welcome@1'']])"
  using missing_type_or_interface_rejected
    [of "[(''interface'', VString ''qtplugin'')]" exampleEnv "''welcome@1''"
        "''welcome.conf''" welcomeDir]
    missing_type_or_interface_rejected
    [of "[(''type'', VString ''job''), (''interface'', VString [])]" exampleEnv
        "''welcome@1''" "''welcome.conf''" welcomeDir]
  by (simp add: QMap_contains_def QMap_value_def)

text \<open>
  Claim C2, as amended. The variant is found by exact match on the two strings:
  \<open>view\<close> or \<open>viewmodule\<close> with \<open>qtplugin\<close> is a view-plugin module, and with
  \<open>pythonqt\<close> a PythonQt view module when PythonQt support is compiled in; \<open>job\<close>
  with \<open>qtplugin\<close>, \<open>process\<close> or \<open>python\<close> is the matching job module, the last one
  only when Python support is compiled in. Every other pair has no variant. For a
  descriptor with non-empty type and interface, a pair without a variant makes the
  build return no instance, the last line logged naming type, interface and instance
  id; and an instance that is returned has the variant of the table.
\<close>

theorem variant_table:
  "fst (selectVariant env t i) =
     (if (t = ''view'' \<or> t = ''viewmodule'') \<and> i = ''qtplugin'' then Some ViewModule
      else if (t = ''view'' \<or> t = ''viewmodule'') \<and> i = ''pythonqt'' \<and> WITH_PYTHONQT env
        then Some PythonQtViewModule
      else if t = ''job'' \<and> i = ''qtplugin'' then Some CppJobModule
      else if t = ''job'' \<and> i = ''process'' then Some ProcessJobModule
      else if t = ''job'' \<and> i = ''python'' \<and> WITH_PYTHON env then Some PythonJobModule
      else None)
   \<and> (toString (QMap_value d ''type'') = t \<and> toString (QMap_value d ''interface'') = i
        \<and> t \<noteq> [] \<and> i \<noteq> [] \<longrightarrow>
        (case fst (selectVariant env t i) of
           None \<Rightarrow>
             fst (fromDescriptor env d iid f dir) = None
             \<and> last (snd (fromDescriptor env d iid f dir)) =
                 cError [''Bad module type ('', t, '') or interface string ('', i,
                         '') for module '', iid]
         | Some v \<Rightarrow>
             (\<forall>m. fst (fromDescriptor env d iid f dir) = Some m \<longrightarrow> variant m = v)))"
proof (intro conjI impI)
  show "fst (selectVariant env t i) =
     (if (t = ''view'' \<or> t = ''viewmodule'') \<and> i = ''qtplugin'' then Some ViewModule
      else if (t = ''view'' \<or> t = ''viewmodule'') \<and> i = ''pythonqt'' \<and> WITH_PYTHONQT env
        then Some PythonQtViewModule
      else if t = ''job'' \<and> i = ''qtplugin'' then Some CppJobModule
      else if t = ''job'' \<and> i = ''process'' then Some ProcessJobModule
      else if t = ''job'' \<and> i = ''python'' \<and> WITH_PYTHON env then Some PythonJobModule
      else None)"
    by (simp add: selectVariant_def)
next
  assume a: "toString (QMap_value d ''type'') = t \<and> toString (QMap_value d ''interface'') = i
        \<and> t \<noteq> [] \<and> i \<noteq> []"
  show "case fst (selectVariant env t i) of
           None \<Rightarrow>
             fst (fromDescriptor env d iid f dir) = None
             \<and> last (snd (fromDescriptor env d iid f dir)) =
                 cError [''Bad module type ('', t, '') or interface string ('', i,
                         '') for module '', iid]
         | Some v \<Rightarrow>
             (\<forall>m. fst (fromDescriptor env d iid f dir) = Some m \<longrightarrow> variant m = v)"
  proof (cases "selectVariant env t i")
    case (Pair r lg)
    show ?thesis
    proof (cases r)
      case None
      with Pair a show ?thesis by (simp add: fromDescriptor_def Let_def)
    next
      case (Some v)
      have "variant m = v" if h: "fst (fromDescriptor env d iid f dir) = Some m" for m
      proof -
        obtain lg' where "fromDescriptor env d iid f dir = (Some m, lg')"
          using h by (cases "fromDescriptor env d iid f dir") simp
        from fromDescriptor_Some[OF this] Pair Some a obtain v' where
          v': "selectVariant env t i = (Some v', [])"
          and l: "loadConfigurationFile env f
             (initFrom d ((new_Module v')\<lparr> m_directory := QDir_absolutePath env dir,
                                          m_instanceId := iid \<rparr>)) = Inr (m, lg')"
          by auto
        from v' Pair Some have "v' = v" by simp
        from loadFirst_result[OF l[unfolded loadConfigurationFile_def]]
        have "variant m = v'" by (auto simp: initFrom_fields new_Module_def)
        with \<open>v' = v\<close> show ?thesis by simp
      qed
      with Pair Some show ?thesis by simp
    qed
  qed
qed

text \<open>A view with the \<open>process\<close> interface has no variant, and the build fails.\<close>

theorem variant_table_witness:
  "fst (selectVariant exampleEnv ''view'' ''process'') = None
   \<and> toString (QMap_value [(''type'', VString ''view''), (''interface'', VString ''process'')]
                  ''type'') = ''view''
   \<and> toString (QMap_value [(''type'', VString ''view''), (''interface'', VString ''process'')]
                  ''interface'') = ''process''
   \<and> fromDescriptor exampleEnv
        [(''type'', VString ''view''), (''interface'', VString ''process'')]
        ''welcome@1'' ''welcome.conf'' welcomeDir
     = (None, [cError [''Bad interface'', ''process'', ''for module type'', ''view''],
               cError [''Bad module type ('', ''view'', '') or interface string ('',
                       ''process'', '') for module '', ''welcome@1'']])"
  using variant_table
    [of exampleEnv "''view''" "''process''"
        "[(''type'', VString ''view''), (''interface'', VString ''process'')]"
        "''welcome@1''" "''welcome.conf''" welcomeDir]
  by (simp add: example_simps)

text \<open>
  The claim C2 as it was stated lists five pairs and has every other pair fail. With
  PythonQt support compiled in, \<open>view\<close> with \<open>pythonqt\<close> is none of the five and is
  built.
\<close>

theorem variant_table_counterexample:
  "(''view'', ''pythonqt'') \<notin>
      {(''view'', ''qtplugin''), (''viewmodule'', ''qtplugin''), (''job'', ''qtplugin''),
       (''job'', ''process''), (''job'', ''python'')}
   \<and> fromDescriptor (exampleEnv\<lparr> WITH_PYTHONQT := True \<rparr>)
        [(''type'', VString ''view''), (''interface'', VString ''pythonqt'')]
        ''welcome@1'' ''welcome.conf'' welcomeDir
     = (Some \<lparr> variant = PythonQtViewModule, m_name = [], m_requiredModules = [],
               m_directory = welcomeDir, m_instanceId = ''welcome@1'',
               m_configurationMap = [], m_loaded = False,
               m_emergency = False, m_maybe_emergency = False \<rparr>, [])"
  by (simp add: example_simps)

text \<open>
  Claim C8. An instance that is returned has as its directory the absolute path of the
  module directory, and that directory existed and was readable. When the directory
  does not exist or is not readable no instance is returned; the line logged is the
  bad-directory error with the directory and the instance id whenever the descriptor
  got as far as that check, that is, whenever a variant was selected.
\<close>

theorem directory_checked:
  "(fromDescriptor env d iid f dir = (Some m, lg) \<longrightarrow>
      QDir_exists env dir \<and> QDir_isReadable env dir
      \<and> m_directory m = QDir_absolutePath env dir)
   \<and> (\<not> (QDir_exists env dir \<and> QDir_isReadable env dir) \<longrightarrow>
        fst (fromDescriptor env d iid f dir) = None
        \<and> (\<forall>v. fst (selectVariant env (toString (QMap_value d ''type''))
                       (toString (QMap_value d ''interface''))) = Some v \<longrightarrow>
              fromDescriptor env d iid f dir =
                (None, [cError [''Bad module directory'', dir, ''for'', iid]])))"
proof (intro conjI impI allI)
  assume h: "fromDescriptor env d iid f dir = (Some m, lg)"
  from fromDescriptor_Some[OF h] obtain v where
    ok: "QDir_exists env dir" "QDir_isReadable env dir"
    and l: "loadConfigurationFile env f
             (initFrom d ((new_Module v)\<lparr> m_directory := QDir_absolutePath env dir,
                                          m_instanceId := iid \<rparr>)) = Inr (m, lg)"
    by blast
  from loadFirst_keeps[OF l[unfolded loadConfigurationFile_def]]
  have "m_directory m = QDir_absolutePath env dir"
    by (simp add: initFrom_fields)
  with ok show "QDir_exists env dir" "QDir_isReadable env dir"
    "m_directory m = QDir_absolutePath env dir"
    by simp_all
next
  assume bad: "\<not> (QDir_exists env dir \<and> QDir_isReadable env dir)"
  show "fst (fromDescriptor env d iid f dir) = None"
  proof (cases "fst (fromDescriptor env d iid f dir)")
    case None
    then show ?thesis .
  next
    case (Some m)
    then have "fromDescriptor env d iid f dir = (Some m, snd (fromDescriptor env d iid f dir))"
      by (cases "fromDescriptor env d iid f dir") simp
    from fromDescriptor_Some[OF this] bad show ?thesis by blast
  qed
next
  fix v
  assume bad: "\<not> (QDir_exists env dir \<and> QDir_isReadable env dir)"
    and sel: "fst (selectVariant env (toString (QMap_value d ''type''))
                       (toString (QMap_value d ''interface''))) = Some v"
  obtain lg0 where s: "selectVariant env (toString (QMap_value d ''type''))
                       (toString (QMap_value d ''interface'')) = (Some v, lg0)"
    using sel by (cases "selectVariant env (toString (QMap_value d ''type''))
                       (toString (QMap_value d ''interface''))") simp
  from selectVariant_Some[OF s] s bad
  show "fromDescriptor env d iid f dir =
                (None, [cError [''Bad module directory'', dir, ''for'', iid]])"
    by (auto simp: fromDescriptor_def Let_def)
qed

text \<open>The example installation builds \<open>welcome\<close> from its directory, and fails on a
  directory that is not there.\<close>

theorem directory_checked_witness:
  "fromDescriptor exampleEnv welcomeDesc ''welcome@1'' ''welcome.conf'' welcomeDir
   = (Some \<lparr> variant = ProcessJobModule, m_name = ''welcome'', m_requiredModules = [],
             m_directory = welcomeDir, m_instanceId = ''welcome@1'',
             m_configurationMap = [], m_loaded = False,
             m_emergency = False, m_maybe_emergency = True \<rparr>, [])
   \<and> QDir_exists exampleEnv welcomeDir \<and> QDir_isReadable exampleEnv welcomeDir
   \<and> QDir_absolutePath exampleEnv welcomeDir = welcomeDir
   \<and> \<not> QDir_exists exampleEnv ''/nowhere''
   \<and> fromDescriptor exampleEnv welcomeDesc ''welcome@1'' ''welcome.conf'' ''/nowhere''
     = (None, [cError [''Bad module directory'', ''/nowhere'', ''for'', ''welcome@1'']])"
  using directory_checked
    [of exampleEnv welcomeDesc "''welcome@1''" "''welcome.conf''" welcomeDir
        "\<lparr> variant = ProcessJobModule, m_name = ''welcome'', m_requiredModules = [],
           m_directory = welcomeDir, m_instanceId = ''welcome@1'',
           m_configurationMap = [], m_loaded = False,
           m_emergency = False, m_maybe_emergency = True \<rparr>" "[]"]
    directory_checked
    [of exampleEnv welcomeDesc "''welcome@1''" "''welcome.conf''" "''/nowhere''"]
  by (simp add: example_simps)

section \<open>The candidate paths and the search\<close>

text \<open>
  Claim C7. When the application-data directory is overridden, the candidate list has
  exactly one path, the file \<open>modules/<configFileName>\<close> under the override root, and
  \<open>loadConfigurationFile\<close> looks at that path only: it reads it when it exists and
  opens, and returns the module untouched otherwise. Debug mode plays no part: nothing
  is assumed about it, so the development path under the current directory is not a
  candidate even when debug mode is on.
\<close>

theorem override_root_single_candidate:
  assumes "isAppDataDirOverridden env"
  shows "configFilesByPriority env name configFileName =
           [if endsWith (appDataDir env) CHR ''/''
            then appDataDir env @ ''modules/'' @ configFileName
            else appDataDir env @ ''/modules/'' @ configFileName]
         \<and> loadConfigurationFile env configFileName m =
           (let path = absoluteFilePath (appDataDir env) (''modules/'' @ configFileName) in
            if QFile_exists env path \<and> QFile_open env path then readConfigFile env m path
            else Inr (m, []))"
  using assms
  by (simp add: configFilesByPriority_def loadConfigurationFile_def arg_modules_1
      absoluteFilePath_def Let_def)

text \<open>The example installation with an override root and debug mode on: the one
  candidate is under the override root, and with no file there the module is returned
  as it was.\<close>

theorem override_root_single_candidate_witness:
  "isAppDataDirOverridden
     (exampleEnv\<lparr> isAppDataDirOverridden := True, appDataDir := ''/tmp/root'',
                  debugMode := True \<rparr>)
   \<and> configFilesByPriority
       (exampleEnv\<lparr> isAppDataDirOverridden := True, appDataDir := ''/tmp/root'',
                    debugMode := True \<rparr>) ''welcome'' ''welcome.conf''
     = [''/tmp/root/modules/welcome.conf'']
   \<and> loadConfigurationFile
       (exampleEnv\<lparr> isAppDataDirOverridden := True, appDataDir := ''/tmp/root'',
                    debugMode := True \<rparr>) ''welcome.conf'' (new_Module ProcessJobModule)
     = Inr (new_Module ProcessJobModule, [])"
  using override_root_single_candidate
    [of "exampleEnv\<lparr> isAppDataDirOverridden := True, appDataDir := ''/tmp/root'',
                      debugMode := True \<rparr>" "''welcome''" "''welcome.conf''"
        "new_Module ProcessJobModule"]
  by (simp add: exampleEnv_def endsWith_def absoluteFilePath_def)

text \<open>
  Claim C3. Without an override root and with debug mode off the candidates are the
  file under \<open>/etc/calamares/modules\<close> and then the file under the application data
  directory, in that order. In every environment, the first candidate that exists and
  opens decides the result: the result is what reading that file gives, whatever
  candidates follow it, and when the parser throws on it the exception is the result
  and no later candidate is tried. When no candidate exists the module is returned
  unchanged with nothing logged, and a build that gets that far returns an instance
  with an empty configuration map.
\<close>

theorem first_readable_candidate_wins:
  "(\<not> isAppDataDirOverridden env \<and> \<not> debugMode env \<longrightarrow>
      configFilesByPriority env name f =
        [''/etc/calamares/modules/'' @ f,
         if endsWith (appDataDir env) CHR ''/''
         then appDataDir env @ ''modules/'' @ f
         else appDataDir env @ ''/modules/'' @ f])
   \<and> (configFilesByPriority env (m_name m) f = pre @ p # post
       \<and> (\<forall>q\<in>set pre. \<not> (QFile_exists env q \<and> QFile_open env q))
       \<and> QFile_exists env p \<and> QFile_open env p \<longrightarrow>
        loadConfigurationFile env f m = readConfigFile env m p
        \<and> (\<forall>post'. loadFirst env m (pre @ p # post') = readConfigFile env m p)
        \<and> (\<forall>e. YAML_Load env (constData (QFile_readAll env p)) = Inl e \<longrightarrow>
              loadConfigurationFile env f m = Inl e))
   \<and> ((\<forall>q\<in>set (configFilesByPriority env (m_name m) f). \<not> QFile_exists env q) \<longrightarrow>
        loadConfigurationFile env f m = Inr (m, []))
   \<and> (fst (selectVariant env (toString (QMap_value d ''type''))
              (toString (QMap_value d ''interface''))) = Some v
       \<and> QDir_exists env dir \<and> QDir_isReadable env dir
       \<and> (\<forall>q\<in>set (configFilesByPriority env (toString (QMap_value d ''name'')) f).
             \<not> QFile_exists env q) \<longrightarrow>
        (\<exists>m'. fromDescriptor env d iid f dir = (Some m', [])
              \<and> m_configurationMap m' = []))"
proof (intro conjI impI allI)
  assume "\<not> isAppDataDirOverridden env \<and> \<not> debugMode env"
  then show "configFilesByPriority env name f =
        [''/etc/calamares/modules/'' @ f,
         if endsWith (appDataDir env) CHR ''/''
         then appDataDir env @ ''modules/'' @ f
         else appDataDir env @ ''/modules/'' @ f]"
    by (simp add: configFilesByPriority_def arg_etc arg_modules_2 absoluteFilePath_def)
next
  assume a: "configFilesByPriority env (m_name m) f = pre @ p # post
       \<and> (\<forall>q\<in>set pre. \<not> (QFile_exists env q \<and> QFile_open env q))
       \<and> QFile_exists env p \<and> QFile_open env p"
  then show w: "loadConfigurationFile env f m = readConfigFile env m p"
    by (simp add: loadConfigurationFile_def loadFirst_wins)
  show "loadFirst env m (pre @ p # post') = readConfigFile env m p" for post'
    using a by (simp add: loadFirst_wins)
  show "loadConfigurationFile env f m = Inl e"
    if "YAML_Load env (constData (QFile_readAll env p)) = Inl e" for e
    using w that by (simp add: readConfigFile_def Let_def)
next
  assume "\<forall>q\<in>set (configFilesByPriority env (m_name m) f). \<not> QFile_exists env q"
  then show "loadConfigurationFile env f m = Inr (m, [])"
    by (simp add: loadConfigurationFile_def loadFirst_none)
next
  assume a: "fst (selectVariant env (toString (QMap_value d ''type''))
              (toString (QMap_value d ''interface''))) = Some v
       \<and> QDir_exists env dir \<and> QDir_isReadable env dir
       \<and> (\<forall>q\<in>set (configFilesByPriority env (toString (QMap_value d ''name'')) f).
             \<not> QFile_exists env q)"
  let ?m0 = "initFrom d ((new_Module v)\<lparr> m_directory := QDir_absolutePath env dir,
                                          m_instanceId := iid \<rparr>)"
  obtain lg0 where s: "selectVariant env (toString (QMap_value d ''type''))
                       (toString (QMap_value d ''interface'')) = (Some v, lg0)"
    using a by (cases "selectVariant env (toString (QMap_value d ''type''))
                       (toString (QMap_value d ''interface''))") simp
  from a have "loadConfigurationFile env f ?m0 = Inr (?m0, [])"
    by (simp add: loadConfigurationFile_def built_candidates loadFirst_none)
  with fromDescriptor_built[OF s] a
  have "fromDescriptor env d iid f dir = (Some ?m0, [])"
    by simp
  moreover have "m_configurationMap ?m0 = []"
    by (simp add: initFrom_fields new_Module_def)
  ultimately show "\<exists>m'. fromDescriptor env d iid f dir = (Some m', [])
              \<and> m_configurationMap m' = []"
    by blast
qed

text \<open>The example installation with a broken file under \<open>/etc\<close> and a good one under
  the data directory: the broken one wins and the exception is the result. With no
  file at all, the module comes back unchanged and the build has an empty map.\<close>

theorem first_readable_candidate_wins_witness:
  "\<not> isAppDataDirOverridden exampleEnv \<and> \<not> debugMode exampleEnv
   \<and> configFilesByPriority exampleEnv ''welcome'' ''welcome.conf'' = [etcConf, appConf]
   \<and> QFile_open (withFile (withFile exampleEnv appConf ''emergency: true'') etcConf ''{'')
        etcConf
   \<and> QFile_open (withFile (withFile exampleEnv appConf ''emergency: true'') etcConf ''{'')
        appConf
   \<and> loadConfigurationFile
        (withFile (withFile exampleEnv appConf ''emergency: true'') etcConf ''{'')
        ''welcome.conf'' (initFrom welcomeDesc (new_Module ProcessJobModule))
     = Inl (YAML_Exception ''yaml-cpp: error at line 1, column 2'')
   \<and> loadConfigurationFile exampleEnv ''welcome.conf''
        (initFrom welcomeDesc (new_Module ProcessJobModule))
     = Inr (initFrom welcomeDesc (new_Module ProcessJobModule), [])
   \<and> fromDescriptor exampleEnv welcomeDesc ''welcome@1'' ''welcome.conf'' welcomeDir
     = (Some \<lparr> variant = ProcessJobModule, m_name = ''welcome'', m_requiredModules = [],
               m_directory = welcomeDir, m_instanceId = ''welcome@1'',
               m_configurationMap = [], m_loaded = False,
               m_emergency = False, m_maybe_emergency = True \<rparr>, [])"
proof -
  let ?E = "withFile (withFile exampleEnv appConf ''emergency: true'') etcConf ''{''"
  let ?M = "initFrom welcomeDesc (new_Module ProcessJobModule)"
  have n: "\<not> isAppDataDirOverridden exampleEnv \<and> \<not> debugMode exampleEnv"
    by (simp add: exampleEnv_def)
  have c: "configFilesByPriority ?E (m_name ?M) ''welcome.conf'' = [] @ etcConf # [appConf]"
    by (simp add: example_simps)
  have o: "QFile_exists ?E etcConf \<and> QFile_open ?E etcConf \<and> QFile_open ?E appConf"
    by (simp add: example_simps)
  have y: "YAML_Load ?E (constData (QFile_readAll ?E etcConf)) =
             Inl (YAML_Exception ''yaml-cpp: error at line 1, column 2'')"
    by (simp add: example_simps)
  have x: "\<forall>q\<in>set (configFilesByPriority exampleEnv (m_name ?M) ''welcome.conf'').
             \<not> QFile_exists exampleEnv q"
    by (simp add: example_simps)
  have b: "fst (selectVariant exampleEnv (toString (QMap_value welcomeDesc ''type''))
              (toString (QMap_value welcomeDesc ''interface''))) = Some ProcessJobModule
       \<and> QDir_exists exampleEnv welcomeDir \<and> QDir_isReadable exampleEnv welcomeDir
       \<and> (\<forall>q\<in>set (configFilesByPriority exampleEnv
                      (toString (QMap_value welcomeDesc ''name'')) ''welcome.conf'').
             \<not> QFile_exists exampleEnv q)"
    by (simp add: example_simps)
  note t1 = first_readable_candidate_wins
    [of exampleEnv "''welcome''" "''welcome.conf''" ?M "[]" etcConf "[appConf]"
        welcomeDesc ProcessJobModule welcomeDir "''welcome@1''"]
  note t2 = first_readable_candidate_wins
    [of ?E "''welcome''" "''welcome.conf''" ?M "[]" etcConf "[appConf]"
        welcomeDesc ProcessJobModule welcomeDir "''welcome@1''"]
  from t1 n have 1: "configFilesByPriority exampleEnv ''welcome'' ''welcome.conf'' =
        [''/etc/calamares/modules/'' @ ''welcome.conf'',
         if endsWith (appDataDir exampleEnv) CHR ''/''
         then appDataDir exampleEnv @ ''modules/'' @ ''welcome.conf''
         else appDataDir exampleEnv @ ''/modules/'' @ ''welcome.conf'']"
    by blast
  have pre: "\<forall>q\<in>set []. \<not> (QFile_exists ?E q \<and> QFile_open ?E q)"
    by simp
  from t2 c pre o y have 2: "loadConfigurationFile ?E ''welcome.conf'' ?M =
      Inl (YAML_Exception ''yaml-cpp: error at line 1, column 2'')"
    by blast
  from t1 x have 3: "loadConfigurationFile exampleEnv ''welcome.conf'' ?M = Inr (?M, [])"
    by blast
  from t1 b obtain m' where 4: "fromDescriptor exampleEnv welcomeDesc ''welcome@1''
       ''welcome.conf'' welcomeDir = (Some m', [])" "m_configurationMap m' = []"
    by blast
  have 5: "fromDescriptor exampleEnv welcomeDesc ''welcome@1'' ''welcome.conf'' welcomeDir
     = (Some \<lparr> variant = ProcessJobModule, m_name = ''welcome'', m_requiredModules = [],
               m_directory = welcomeDir, m_instanceId = ''welcome@1'',
               m_configurationMap = [], m_loaded = False,
               m_emergency = False, m_maybe_emergency = True \<rparr>, [])"
    by (simp add: example_simps)
  from 1 have cands: "configFilesByPriority exampleEnv ''welcome'' ''welcome.conf'' =
      [etcConf, appConf]"
    by (simp add: example_simps)
  from n cands o 2 3 5 show ?thesis
    by simp
qed

text \<open>
  Claim C10. A candidate that exists but does not open neither wins nor stops the
  search: when every candidate before it was passed over, the result is that of the
  search through the candidates after it. So a next candidate that exists and opens
  is the one read, and when there is no next candidate the module is returned
  unchanged.
\<close>

theorem unreadable_candidate_skipped:
  assumes "configFilesByPriority env (m_name m) f = pre @ p # post"
    and "\<forall>q\<in>set pre. \<not> (QFile_exists env q \<and> QFile_open env q)"
    and "QFile_exists env p" and "\<not> QFile_open env p"
  shows "loadConfigurationFile env f m = loadFirst env m post
       \<and> (\<forall>q rest. post = q # rest \<and> QFile_exists env q \<and> QFile_open env q \<longrightarrow>
            loadConfigurationFile env f m = readConfigFile env m q)
       \<and> (post = [] \<longrightarrow> loadConfigurationFile env f m = Inr (m, []))"
proof -
  have "loadConfigurationFile env f m = loadFirst env m (p # post)"
    using assms(1,2) by (simp add: loadConfigurationFile_def loadFirst_skip)
  also have "\<dots> = loadFirst env m post"
    using assms(4) by simp
  finally have main: "loadConfigurationFile env f m = loadFirst env m post" .
  then show ?thesis by auto
qed

text \<open>A file under \<open>/etc\<close> that does not open, and a good one under the data
  directory: the second is read.\<close>

theorem unreadable_candidate_skipped_witness:
  "configFilesByPriority (withFile (withUnreadable exampleEnv etcConf) appConf ''emergency: true'')
      (m_name (initFrom welcomeDesc (new_Module ProcessJobModule))) ''welcome.conf''
     = [etcConf, appConf]
   \<and> QFile_exists (withFile (withUnreadable exampleEnv etcConf) appConf ''emergency: true'')
        etcConf
   \<and> \<not> QFile_open (withFile (withUnreadable exampleEnv etcConf) appConf ''emergency: true'')
        etcConf
   \<and> loadConfigurationFile
        (withFile (withUnreadable exampleEnv etcConf) appConf ''emergency: true'')
        ''welcome.conf'' (initFrom welcomeDesc (new_Module ProcessJobModule))
     = Inr ((initFrom welcomeDesc (new_Module ProcessJobModule))
              \<lparr> m_configurationMap := [(''emergency'', VBool True)], m_emergency := True \<rparr>, [])"
proof -
  let ?E = "withFile (withUnreadable exampleEnv etcConf) appConf ''emergency: true''"
  let ?M = "initFrom welcomeDesc (new_Module ProcessJobModule)"
  have c: "configFilesByPriority ?E (m_name ?M) ''welcome.conf'' = [] @ etcConf # [appConf]"
    by (simp add: example_simps)
  have s: "\<forall>q\<in>set []. \<not> (QFile_exists ?E q \<and> QFile_open ?E q)"
    by simp
  have e: "QFile_exists ?E etcConf"
    by (simp add: example_simps)
  have o: "\<not> QFile_open ?E etcConf"
    by (simp add: example_simps)
  have a: "QFile_exists ?E appConf \<and> QFile_open ?E appConf"
    by (simp add: example_simps)
  have r: "readConfigFile ?E ?M appConf =
     Inr (?M\<lparr> m_configurationMap := [(''emergency'', VBool True)], m_emergency := True \<rparr>, [])"
    by (simp add: example_simps)
  from unreadable_candidate_skipped[OF c s e o] a
  have "loadConfigurationFile ?E ''welcome.conf'' ?M = readConfigFile ?E ?M appConf"
    by blast
  with c e o r show ?thesis
    by simp
qed

section \<open>The configuration document\<close>

text \<open>
  Claim C5, as amended. When the winning candidate fails to parse, the build returns
  no instance: the module that had been allocated is dropped. The one line logged is
  \<open>YAML parser error\<close> followed by the message of the exception, which the parser
  made from the bytes of the file.
\<close>

theorem parse_failure_aborts_build:
  assumes "fst (selectVariant env (toString (QMap_value d ''type''))
                  (toString (QMap_value d ''interface''))) = Some v"
    and "QDir_exists env dir" and "QDir_isReadable env dir"
    and "configFilesByPriority env (toString (QMap_value d ''name'')) f = pre @ p # post"
    and "\<forall>q\<in>set pre. \<not> (QFile_exists env q \<and> QFile_open env q)"
    and "QFile_exists env p" and "QFile_open env p"
    and "YAML_Load env (constData (QFile_readAll env p)) = Inl e"
  shows "fromDescriptor env d iid f dir = (None, [cError [''YAML parser error '', what e]])"
proof -
  let ?m0 = "initFrom d ((new_Module v)\<lparr> m_directory := QDir_absolutePath env dir,
                                          m_instanceId := iid \<rparr>)"
  obtain lg0 where s: "selectVariant env (toString (QMap_value d ''type''))
                       (toString (QMap_value d ''interface'')) = (Some v, lg0)"
    using assms(1) by (cases "selectVariant env (toString (QMap_value d ''type''))
                       (toString (QMap_value d ''interface''))") simp
  have "loadConfigurationFile env f ?m0 = readConfigFile env ?m0 p"
    using assms(4-7) by (simp add: loadConfigurationFile_def built_candidates loadFirst_wins)
  also have "\<dots> = Inl e"
    using assms(8) by (simp add: readConfigFile_def Let_def)
  finally show ?thesis
    using fromDescriptor_built[OF s assms(2,3)] by simp
qed

text \<open>A file under \<open>/etc\<close> with an unbalanced brace.\<close>

theorem parse_failure_aborts_build_witness:
  "fst (selectVariant (withFile exampleEnv etcConf ''{'')
          (toString (QMap_value welcomeDesc ''type''))
          (toString (QMap_value welcomeDesc ''interface''))) = Some ProcessJobModule
   \<and> configFilesByPriority (withFile exampleEnv etcConf ''{'')
        (toString (QMap_value welcomeDesc ''name'')) ''welcome.conf'' = [etcConf, appConf]
   \<and> YAML_Load (withFile exampleEnv etcConf ''{'')
        (constData (QFile_readAll (withFile exampleEnv etcConf ''{'') etcConf))
      = Inl (YAML_Exception ''yaml-cpp: error at line 1, column 2'')
   \<and> fromDescriptor (withFile exampleEnv etcConf ''{'') welcomeDesc
        ''welcome@1'' ''welcome.conf'' welcomeDir
     = (None, [cError [''YAML parser error '', ''yaml-cpp: error at line 1, column 2'']])"
  using parse_failure_aborts_build
    [of "withFile exampleEnv etcConf ''{''" welcomeDesc ProcessJobModule welcomeDir
        "''welcome.conf''" "[]" etcConf "[appConf]"
        "YAML_Exception ''yaml-cpp: error at line 1, column 2''" "''welcome@1''"]
  by (simp add: example_simps)

text \<open>
  The claim C5 as it was stated has the error name the offending path. In the example
  the build fails on the file under \<open>/etc\<close>, and the path of that file occurs nowhere
  in what is logged.
\<close>

theorem parse_failure_aborts_build_counterexample:
  "fromDescriptor (withFile exampleEnv etcConf ''{'') welcomeDesc
      ''welcome@1'' ''welcome.conf'' welcomeDir
   = (None, [cError [''YAML parser error '', ''yaml-cpp: error at line 1, column 2'']])
   \<and> \<not> names (snd (fromDescriptor (withFile exampleEnv etcConf ''{'') welcomeDesc
                       ''welcome@1'' ''welcome.conf'' welcomeDir)) etcConf"
  by (simp add: example_simps names_def)

text \<open>
  Claim C6. When the winning candidate parses to a document that is not a mapping, the
  build still returns an instance, of the selected variant, with an empty configuration
  map and the emergency flag off. For a null document nothing is logged; for any other
  document that is not a mapping the one line logged is the warning about the
  configuration format, with the path.
\<close>

theorem non_mapping_document_is_soft:
  assumes "fst (selectVariant env (toString (QMap_value d ''type''))
                  (toString (QMap_value d ''interface''))) = Some v"
    and "QDir_exists env dir" and "QDir_isReadable env dir"
    and "configFilesByPriority env (toString (QMap_value d ''name'')) f = pre @ p # post"
    and "\<forall>q\<in>set pre. \<not> (QFile_exists env q \<and> QFile_open env q)"
    and "QFile_exists env p" and "QFile_open env p"
    and "YAML_Load env (constData (QFile_readAll env p)) = Inr doc"
    and "\<not> IsMap doc"
  shows "\<exists>m. fromDescriptor env d iid f dir =
           (Some m, if IsNull doc then []
                    else [cWarning [''Bad module configuration format'', p]])
         \<and> m_configurationMap m = [] \<and> \<not> m_emergency m \<and> variant m = v"
proof -
  let ?m0 = "initFrom d ((new_Module v)\<lparr> m_directory := QDir_absolutePath env dir,
                                          m_instanceId := iid \<rparr>)"
  obtain lg0 where s: "selectVariant env (toString (QMap_value d ''type''))
                       (toString (QMap_value d ''interface'')) = (Some v, lg0)"
    using assms(1) by (cases "selectVariant env (toString (QMap_value d ''type''))
                       (toString (QMap_value d ''interface''))") simp
  have "loadConfigurationFile env f ?m0 = readConfigFile env ?m0 p"
    using assms(4-7) by (simp add: loadConfigurationFile_def built_candidates loadFirst_wins)
  also have "\<dots> = Inr (?m0, if IsNull doc then []
                    else [cWarning [''Bad module configuration format'', p]])"
    using assms(8,9) by (simp add: readConfigFile_def Let_def)
  finally have "fromDescriptor env d iid f dir =
           (Some ?m0, if IsNull doc then []
                    else [cWarning [''Bad module configuration format'', p]])"
    using fromDescriptor_built[OF s assms(2,3)] by simp
  moreover have "m_configurationMap ?m0 = []" "\<not> m_emergency ?m0" "variant ?m0 = v"
    by (simp_all add: initFrom_fields new_Module_def)
  ultimately show ?thesis by blast
qed

text \<open>A file under \<open>/etc\<close> that holds a sequence.\<close>

theorem non_mapping_document_is_soft_witness:
  "fst (selectVariant (withFile exampleEnv etcConf ''- a'')
          (toString (QMap_value welcomeDesc ''type''))
          (toString (QMap_value welcomeDesc ''interface''))) = Some ProcessJobModule
   \<and> configFilesByPriority (withFile exampleEnv etcConf ''- a'')
        (toString (QMap_value welcomeDesc ''name'')) ''welcome.conf'' = [etcConf, appConf]
   \<and> YAML_Load (withFile exampleEnv etcConf ''- a'')
        (constData (QFile_readAll (withFile exampleEnv etcConf ''- a'') etcConf))
      = Inr (YSequence [YScalar ''a''])
   \<and> \<not> IsMap (YSequence [YScalar ''a''])
   \<and> fromDescriptor (withFile exampleEnv etcConf ''- a'') welcomeDesc
        ''welcome@1'' ''welcome.conf'' welcomeDir
     = (Some \<lparr> variant = ProcessJobModule, m_name = ''welcome'', m_requiredModules = [],
               m_directory = welcomeDir, m_instanceId = ''welcome@1'',
               m_configurationMap = [], m_loaded = False,
               m_emergency = False, m_maybe_emergency = True \<rparr>,
        [cWarning [''Bad module configuration format'', etcConf]])"
  using non_mapping_document_is_soft
    [of "withFile exampleEnv etcConf ''- a''" welcomeDesc ProcessJobModule welcomeDir
        "''welcome.conf''" "[]" etcConf "[appConf]" "YSequence [YScalar ''a'']"
        "''welcome@1''"]
  by (simp add: example_simps)

text \<open>
  Claim C9. \<open>loadConfigurationFile\<close> returns the module as it was given, emergency
  flag and configuration map included, when no candidate exists and opens, and when
  the winning document is not a mapping (a null document is not a mapping). The other
  way round, when the returned module differs from the given one in the emergency flag
  or in the configuration map, the first candidate that exists and opens parses to a
  mapping.
  Nothing is assumed about the descriptor's hint: with the hint set and no mapping read,
  the emergency flag stays what it was.
\<close>

theorem emergency_assigned_only_for_mapping:
  "((\<forall>q\<in>set (configFilesByPriority env (m_name m) f).
        \<not> (QFile_exists env q \<and> QFile_open env q)) \<longrightarrow>
      loadConfigurationFile env f m = Inr (m, []))
   \<and> (configFilesByPriority env (m_name m) f = pre @ p # post
       \<and> (\<forall>q\<in>set pre. \<not> (QFile_exists env q \<and> QFile_open env q))
       \<and> QFile_exists env p \<and> QFile_open env p
       \<and> YAML_Load env (constData (QFile_readAll env p)) = Inr doc \<and> \<not> IsMap doc \<longrightarrow>
        (\<exists>lg. loadConfigurationFile env f m = Inr (m, lg)))
   \<and> (loadConfigurationFile env f m = Inr (m', lg')
       \<and> (m_emergency m' \<noteq> m_emergency m \<or> m_configurationMap m' \<noteq> m_configurationMap m)
       \<longrightarrow>
        (\<exists>pre' p' post' doc'.
            configFilesByPriority env (m_name m) f = pre' @ p' # post'
            \<and> (\<forall>q\<in>set pre'. \<not> (QFile_exists env q \<and> QFile_open env q))
            \<and> QFile_exists env p' \<and> QFile_open env p'
            \<and> YAML_Load env (constData (QFile_readAll env p')) = Inr doc' \<and> IsMap doc'))"
proof (intro conjI impI)
  assume "\<forall>q\<in>set (configFilesByPriority env (m_name m) f).
        \<not> (QFile_exists env q \<and> QFile_open env q)"
  then show "loadConfigurationFile env f m = Inr (m, [])"
    by (simp add: loadConfigurationFile_def loadFirst_none)
next
  assume a: "configFilesByPriority env (m_name m) f = pre @ p # post
       \<and> (\<forall>q\<in>set pre. \<not> (QFile_exists env q \<and> QFile_open env q))
       \<and> QFile_exists env p \<and> QFile_open env p
       \<and> YAML_Load env (constData (QFile_readAll env p)) = Inr doc \<and> \<not> IsMap doc"
  then have "loadConfigurationFile env f m = readConfigFile env m p"
    by (simp add: loadConfigurationFile_def loadFirst_wins)
  moreover from a have "\<exists>lg. readConfigFile env m p = Inr (m, lg)"
    by (simp add: readConfigFile_def Let_def)
  ultimately show "\<exists>lg. loadConfigurationFile env f m = Inr (m, lg)"
    by simp
next
  assume a: "loadConfigurationFile env f m = Inr (m', lg')
       \<and> (m_emergency m' \<noteq> m_emergency m \<or> m_configurationMap m' \<noteq> m_configurationMap m)"
  let ?ps = "configFilesByPriority env (m_name m) f"
  from a have l: "loadFirst env m ?ps = Inr (m', lg')" and ne: "m' \<noteq> m"
    by (auto simp: loadConfigurationFile_def)
  from loadFirst_winner[OF l ne] obtain pre' p' post' where
    w: "?ps = pre' @ p' # post'"
       "\<forall>q\<in>set pre'. \<not> (QFile_exists env q \<and> QFile_open env q)"
       "QFile_exists env p'" "QFile_open env p'"
    and r: "readConfigFile env m p' = Inr (m', lg')"
    by blast
  from readConfigFile_cases[OF r] ne
  obtain doc' where "YAML_Load env (constData (QFile_readAll env p')) = Inr doc'" "IsMap doc'"
    by blast
  with w show "\<exists>pre' p' post' doc'.
            ?ps = pre' @ p' # post'
            \<and> (\<forall>q\<in>set pre'. \<not> (QFile_exists env q \<and> QFile_open env q))
            \<and> QFile_exists env p' \<and> QFile_open env p'
            \<and> YAML_Load env (constData (QFile_readAll env p')) = Inr doc' \<and> IsMap doc'"
    by blast
qed

text \<open>A module with the hint set: unchanged with no file and with a sequence, and
  changed by a mapping.\<close>

theorem emergency_assigned_only_for_mapping_witness:
  "m_maybe_emergency (initFrom welcomeDesc (new_Module ProcessJobModule))
   \<and> loadConfigurationFile exampleEnv ''welcome.conf''
        (initFrom welcomeDesc (new_Module ProcessJobModule))
     = Inr (initFrom welcomeDesc (new_Module ProcessJobModule), [])
   \<and> \<not> IsMap (YSequence [YScalar ''a''])
   \<and> loadConfigurationFile (withFile exampleEnv etcConf ''- a'') ''welcome.conf''
        (initFrom welcomeDesc (new_Module ProcessJobModule))
     = Inr (initFrom welcomeDesc (new_Module ProcessJobModule),
            [cWarning [''Bad module configuration format'', etcConf]])
   \<and> loadConfigurationFile (withFile exampleEnv etcConf ''emergency: true'') ''welcome.conf''
        (initFrom welcomeDesc (new_Module ProcessJobModule))
     = Inr ((initFrom welcomeDesc (new_Module ProcessJobModule))
              \<lparr> m_configurationMap := [(''emergency'', VBool True)], m_emergency := True \<rparr>, [])
   \<and> (\<exists>p. QFile_open (withFile exampleEnv etcConf ''emergency: true'') p)"
proof -
  let ?M = "initFrom welcomeDesc (new_Module ProcessJobModule)"
  let ?S = "withFile exampleEnv etcConf ''- a''"
  let ?G = "withFile exampleEnv etcConf ''emergency: true''"
  let ?M' = "?M\<lparr> m_configurationMap := [(''emergency'', VBool True)], m_emergency := True \<rparr>"
  have h: "m_maybe_emergency ?M"
    by (simp add: example_simps)
  have none: "\<forall>q\<in>set (configFilesByPriority exampleEnv (m_name ?M) ''welcome.conf'').
        \<not> (QFile_exists exampleEnv q \<and> QFile_open exampleEnv q)"
    by (simp add: example_simps)
  from emergency_assigned_only_for_mapping
         [of exampleEnv ?M "''welcome.conf''" "[]" etcConf "[appConf]" YNull ?M "[]"] none
  have 1: "loadConfigurationFile exampleEnv ''welcome.conf'' ?M = Inr (?M, [])"
    by blast
  have s: "configFilesByPriority ?S (m_name ?M) ''welcome.conf'' = [] @ etcConf # [appConf]
       \<and> (\<forall>q\<in>set []. \<not> (QFile_exists ?S q \<and> QFile_open ?S q))
       \<and> QFile_exists ?S etcConf \<and> QFile_open ?S etcConf
       \<and> YAML_Load ?S (constData (QFile_readAll ?S etcConf)) = Inr (YSequence [YScalar ''a''])
       \<and> \<not> IsMap (YSequence [YScalar ''a''])"
    by (simp add: example_simps)
  from emergency_assigned_only_for_mapping
         [of ?S ?M "''welcome.conf''" "[]" etcConf "[appConf]" "YSequence [YScalar ''a'']"
             ?M "[]"] s
  obtain lg where kept: "loadConfigurationFile ?S ''welcome.conf'' ?M = Inr (?M, lg)"
    by blast
  have 2: "loadConfigurationFile ?S ''welcome.conf'' ?M =
      Inr (?M, [cWarning [''Bad module configuration format'', etcConf]])"
    by (simp add: example_simps)
  have g: "loadConfigurationFile ?G ''welcome.conf'' ?M = Inr (?M', [])
       \<and> (m_emergency ?M' \<noteq> m_emergency ?M
            \<or> m_configurationMap ?M' \<noteq> m_configurationMap ?M)"
    by (simp add: example_simps)
  from emergency_assigned_only_for_mapping
         [of ?G ?M "''welcome.conf''" "[]" etcConf "[appConf]" YNull ?M' "[]"] g
  have 3: "\<exists>p. QFile_open ?G p"
    by blast
  from h 1 2 3 g show ?thesis
    by simp
qed

text \<open>
  Claim C1. For every build that returns an instance, the emergency flag of the
  instance is true exactly when the descriptor has the key \<open>emergency\<close> with a true
  value, and the configuration map of the instance has the key \<open>emergency\<close>, and its
  value there is true. True is what \<open>QVariant::toBool\<close> says, in the descriptor and
  in the configuration alike.
\<close>

theorem emergency_needs_both:
  assumes "fromDescriptor env d iid f dir = (Some m, lg)"
  shows "m_emergency m =
           ((QMap_contains d EMERGENCY \<and> toBool (QMap_value d EMERGENCY))
            \<and> QMap_contains (m_configurationMap m) EMERGENCY
            \<and> toBool (QMap_value (m_configurationMap m) EMERGENCY))"
proof -
  from fromDescriptor_Some[OF assms] obtain v where
    l: "loadFirst env
             (initFrom d ((new_Module v)\<lparr> m_directory := QDir_absolutePath env dir,
                                          m_instanceId := iid \<rparr>))
             (configFilesByPriority env
                (m_name (initFrom d ((new_Module v)\<lparr> m_directory := QDir_absolutePath env dir,
                                          m_instanceId := iid \<rparr>))) f) = Inr (m, lg)"
    unfolding loadConfigurationFile_def by blast
  let ?m0 = "initFrom d ((new_Module v)\<lparr> m_directory := QDir_absolutePath env dir,
                                          m_instanceId := iid \<rparr>)"
  have hint: "m_maybe_emergency ?m0 = (QMap_contains d EMERGENCY \<and> toBool (QMap_value d EMERGENCY))"
    by (simp add: initFrom_fields new_Module_def)
  have start: "m_emergency ?m0 = False" "m_configurationMap ?m0 = []"
    by (simp_all add: initFrom_fields new_Module_def)
  from loadFirst_result[OF l] show ?thesis
  proof
    assume "m = ?m0"
    with start show ?thesis by (simp add: QMap_contains_def)
  next
    assume "\<exists>v'. m = ?m0\<lparr> m_configurationMap := toMap v',
                   m_emergency := m_maybe_emergency ?m0
                      \<and> QMap_contains (toMap v') EMERGENCY
                      \<and> toBool (QMap_value (toMap v') EMERGENCY) \<rparr>"
    then obtain v' where "m = ?m0\<lparr> m_configurationMap := toMap v',
                   m_emergency := m_maybe_emergency ?m0
                      \<and> QMap_contains (toMap v') EMERGENCY
                      \<and> toBool (QMap_value (toMap v') EMERGENCY) \<rparr>" ..
    with hint show ?thesis by simp
  qed
qed

text \<open>A descriptor with the hint and a configuration file that confirms it.\<close>

theorem emergency_needs_both_witness:
  "fromDescriptor (withFile exampleEnv etcConf ''emergency: true'') welcomeDesc
      ''welcome@1'' ''welcome.conf'' welcomeDir
   = (Some \<lparr> variant = ProcessJobModule, m_name = ''welcome'', m_requiredModules = [],
             m_directory = welcomeDir, m_instanceId = ''welcome@1'',
             m_configurationMap = [(''emergency'', VBool True)], m_loaded = False,
             m_emergency = True, m_maybe_emergency = True \<rparr>, [])
   \<and> QMap_contains welcomeDesc EMERGENCY \<and> toBool (QMap_value welcomeDesc EMERGENCY)
   \<and> QMap_contains [(''emergency'', VBool True)] EMERGENCY
   \<and> toBool (QMap_value [(''emergency'', VBool True)] EMERGENCY)
   \<and> fromDescriptor exampleEnv welcomeDesc ''welcome@1'' ''welcome.conf'' welcomeDir
   = (Some \<lparr> variant = ProcessJobModule, m_name = ''welcome'', m_requiredModules = [],
             m_directory = welcomeDir, m_instanceId = ''welcome@1'',
             m_configurationMap = [], m_loaded = False,
             m_emergency = False, m_maybe_emergency = True \<rparr>, [])
   \<and> \<not> QMap_contains [] EMERGENCY"
proof -
  let ?M = "\<lparr> variant = ProcessJobModule, m_name = ''welcome'', m_requiredModules = [],
             m_directory = welcomeDir, m_instanceId = ''welcome@1'',
             m_configurationMap = [(''emergency'', VBool True)], m_loaded = False,
             m_emergency = True, m_maybe_emergency = True \<rparr>"
  let ?N = "\<lparr> variant = ProcessJobModule, m_name = ''welcome'', m_requiredModules = [],
             m_directory = welcomeDir, m_instanceId = ''welcome@1'',
             m_configurationMap = [], m_loaded = False,
             m_emergency = False, m_maybe_emergency = True \<rparr>"
  have b: "fromDescriptor (withFile exampleEnv etcConf ''emergency: true'') welcomeDesc
      ''welcome@1'' ''welcome.conf'' welcomeDir = (Some ?M, [])"
    by (simp add: example_simps)
  have c: "fromDescriptor exampleEnv welcomeDesc ''welcome@1'' ''welcome.conf'' welcomeDir
      = (Some ?N, [])"
    by (simp add: example_simps)
  from emergency_needs_both[OF b]
  have "QMap_contains welcomeDesc EMERGENCY \<and> toBool (QMap_value welcomeDesc EMERGENCY)
      \<and> QMap_contains [(''emergency'', VBool True)] EMERGENCY
      \<and> toBool (QMap_value [(''emergency'', VBool True)] EMERGENCY)"
    by simp
  moreover from emergency_needs_both[OF c]
  have "\<not> QMap_contains [] EMERGENCY"
    by (simp add: example_simps)
  ultimately show ?thesis
    using b c by simp
qed

end
